theory Spec2Isabelle
  imports Complex_Main "HOL-Library.Sublist"
begin

section \<open>Strings\<close>

text \<open>
  JavaScript strings are modelled as \<open>string\<close>; a \<open>char\<close> stands for one code unit in
  the range U+0000 .. U+00FF. Numbers that count tokens are modelled as \<open>int\<close> (the
  source adds them as JavaScript numbers, which is exact below \<open>2 ^ 53\<close>); sampling
  parameters, which are fractional, are \<open>real\<close> and are only passed through.
\<close>

text \<open>\<open>String.prototype.includes\<close>: the needle occurs at some position of the string.\<close>

fun string_includes :: "string \<Rightarrow> string \<Rightarrow> bool" where
  "string_includes [] needle = (needle = [])"
| "string_includes (c # cs) needle = (prefix needle (c # cs) \<or> string_includes cs needle)"

text \<open>
  The code units that \<open>String.prototype.trim\<close> strips (ECMAScript WhiteSpace and
  LineTerminator), as far as they fit in a \<open>char\<close>: TAB, LF, VT, FF, CR, SP and NBSP.
\<close>

definition is_whitespace :: "char \<Rightarrow> bool" where
  "is_whitespace c \<longleftrightarrow>
     (of_char c :: nat) = 9 \<or> (of_char c :: nat) = 10 \<or> (of_char c :: nat) = 11 \<or>
     (of_char c :: nat) = 12 \<or> (of_char c :: nat) = 13 \<or> (of_char c :: nat) = 32 \<or>
     (of_char c :: nat) = 160"

definition trim :: "string \<Rightarrow> string" where
  "trim s = rev (dropWhile is_whitespace (rev (dropWhile is_whitespace s)))"

text \<open>\<open>Array.prototype.join\<close> on an array of strings.\<close>

fun join :: "string \<Rightarrow> string list \<Rightarrow> string" where
  "join sep [] = []"
| "join sep [x] = x"
| "join sep (x # y # ys) = x @ sep @ join sep (y # ys)"

section \<open>Canonical request model (types/llm/request.ts)\<close>

datatype Role = User | Assistant | System

fun role_name :: "Role \<Rightarrow> string" where
  "role_name User = ''user''"
| "role_name Assistant = ''assistant''"
| "role_name System = ''system''"

text \<open>\<open>ContentPart\<close>: a text part, or an image part holding \<open>image_url.url\<close>.\<close>

datatype ContentPart = TextContent string | ImageContentPart string

text \<open>\<open>content: string | ContentPart[]\<close>.\<close>

datatype MessageContent = StringContent string | PartsContent "ContentPart list"

record RequestMessage =
  role :: Role
  content :: MessageContent

text \<open>The fields of \<open>LLMRequestBase\<close> that the Anthropic adapter reads.\<close>

record LLMRequest =
  messages :: "RequestMessage list"
  req_model :: string
  max_tokens :: "int option"
  temperature :: "real option"
  top_p :: "real option"

section \<open>Configuration records\<close>

record Thinking =
  budget_tokens :: int

text \<open>
  Modelled from the spec: the declaration of \<open>ChatModel\<close> (types/chat-model.types) is not
  among the sources; the spec describes it as a model-configuration record
  \<open>{id, providerType, model name, optional per-vendor extension fields e.g. thinking budget}\<close>.
\<close>

record ChatModel =
  cm_id :: string
  providerType :: string
  cm_model :: string
  thinking :: "Thinking option"

text \<open>
  Modelled from the spec: the declaration of \<open>LLMProvider\<close> (types/provider.types) is not
  among the sources; the spec describes it as a provider-credential record
  \<open>{apiKey, optional baseUrl}\<close>, and the adapter also reads its \<open>id\<close>.
\<close>

record LLMProvider =
  prov_id :: string
  prov_apiKey :: "string option"
  prov_baseUrl :: "string option"

section \<open>Errors\<close>

text \<open>
  What the vendor transport can raise: \<open>Anthropic.AuthenticationError\<close> with its message,
  or any other failure of the SDK (class name and message).
\<close>

datatype vendor_error =
    AuthenticationError string
  | OtherTransportError string string

text \<open>
  Everything a call can raise: a plain \<open>Error\<close> with its message, the \<open>TypeError\<close> of
  reading a property of \<open>undefined\<close>, the two exception classes of \<open>./exception\<close>
  (\<open>LLMAPIKeyInvalidException\<close> carries the vendor error as its cause), and a vendor
  error passed on unchanged.
\<close>

datatype error =
    Error string
  | TypeError string
  | LLMAPIKeyNotSetException string
  | LLMAPIKeyInvalidException string vendor_error
  | VendorError vendor_error

section \<open>Vendor wire format (the parts of the SDK types the adapter builds and reads)\<close>

text \<open>\<open>TextBlockParam\<close>, and \<open>ImageBlockParam\<close> with its base64 data and media type.\<close>

datatype BlockParam = TextBlockParam string | ImageBlockParam string string

text \<open>
  The content of a \<open>MessageParam\<close> as it exists at run time: either the blocks built
  from a user message's parts, or \<open>message.content as string\<close>. The cast is a
  compile-time assertion only, so the second form holds the request's content value
  itself, whatever its shape.
\<close>

datatype ParamContent = Blocks "BlockParam list" | AsString MessageContent

record MessageParam =
  mp_role :: Role
  mp_content :: ParamContent

record ThinkingParam =
  tp_type :: string
  tp_budget_tokens :: int

record MessageCreateParams =
  p_model :: string
  p_messages :: "MessageParam list"
  p_system :: "string option"
  p_thinking :: "ThinkingParam option"
  p_max_tokens :: int
  p_temperature :: "real option"
  p_top_p :: "real option"
  p_stream :: bool

text \<open>Content blocks of a vendor reply; only the fields the adapter reads are kept.\<close>

datatype ContentBlock =
    TextBlock string
  | ToolUseBlock string string
  | ThinkingBlock string
  | RedactedThinkingBlock string

record AnthropicMessage =
  am_id :: string
  am_content :: "ContentBlock list"
  am_model :: string
  am_role :: string
  am_stop_reason :: "string option"
  am_input_tokens :: int
  am_output_tokens :: int

text \<open>The delta of a \<open>content_block_delta\<close> event.\<close>

datatype ContentDelta =
    TextDelta string
  | InputJsonDelta string
  | ThinkingDelta string
  | SignatureDelta string
  | CitationsDelta

text \<open>
  \<open>MessageStreamEvent\<close>: \<open>message_start\<close> carries the message id, the model and the
  initial usage (input and output tokens); \<open>message_delta\<close> carries
  \<open>usage.output_tokens\<close>.
\<close>

datatype MessageStreamEvent =
    MessageStart string string int int
  | MessageDelta int
  | MessageStop
  | ContentBlockStart
  | ContentBlockDelta ContentDelta
  | ContentBlockStop

text \<open>
  A vendor stream as the generator consumes it: the events it delivers, and how the
  iteration ends: \<open>None\<close> when the stream is exhausted, \<open>Some e\<close> when the iteration
  raises (a cancelled or broken transport).
\<close>

record VendorStream =
  events :: "MessageStreamEvent list"
  failure :: "vendor_error option"

section \<open>Canonical response model (types/llm/response.ts)\<close>

record ResponseUsage =
  prompt_tokens :: int
  completion_tokens :: int
  total_tokens :: int

record ResponseMessage =
  msg_content :: string
  msg_reasoning :: "string option"
  msg_role :: string

record NonStreamingChoice =
  nc_finish_reason :: "string option"
  nc_message :: ResponseMessage

record LLMResponseNonStreaming =
  r_id :: string
  r_choices :: "NonStreamingChoice list"
  r_model :: string
  r_object :: string
  r_usage :: ResponseUsage

record StreamingDelta =
  d_content :: "string option"
  d_reasoning :: "string option"

record StreamingChoice =
  sc_finish_reason :: "string option"
  sc_delta :: StreamingDelta

record LLMResponseStreaming =
  c_id :: string
  c_choices :: "StreamingChoice list"
  c_object :: string
  c_model :: string
  c_usage :: "ResponseUsage option"

section \<open>The Anthropic adapter (core/llm/anthropic.ts)\<close>

definition DEFAULT_MAX_TOKENS :: int where
  "DEFAULT_MAX_TOKENS = 8192"

text \<open>
  The SDK client (package \<open>@anthropic-ai/sdk\<close>) is a library outside the repository.
  It is modelled as far as the adapter uses it: the record of the key and the base URL
  it holds after construction.
\<close>

record AnthropicClient =
  apiKey :: "string option"
  baseURL :: "string option"
  dangerouslyAllowBrowser :: bool

record AnthropicProvider =
  provider :: LLMProvider
  client :: AnthropicClient

text \<open>\<open>s.replace(/\/+$/, '')\<close>: the string without its trailing slashes.\<close>

definition strip_trailing_slashes :: "string \<Rightarrow> string" where
  "strip_trailing_slashes s = rev (dropWhile (\<lambda>c. c = CHR ''/'') (rev s))"

text \<open>
  The options the constructor passes to \<open>new Anthropic\<close>: \<open>provider.apiKey\<close>, the base
  URL without trailing slashes (\<open>undefined\<close> for an absent or empty one), and
  \<open>dangerouslyAllowBrowser: true\<close>.
\<close>

record ClientOptions =
  opt_apiKey :: "string option"
  opt_baseURL :: "string option"
  opt_dangerouslyAllowBrowser :: bool

text \<open>
  The SDK's constructor, by its documented behaviour: an \<open>apiKey\<close> option that is
  \<open>undefined\<close> defaults to the environment variable \<open>ANTHROPIC_API_KEY\<close>, and to
  \<open>null\<close> when that is unset; a key that is given is stored as it is. A missing key
  raises nothing. The value of the environment variable is a parameter of the model
  (\<open>None\<close> when it is unset).
\<close>

definition new_Anthropic :: "string option \<Rightarrow> ClientOptions \<Rightarrow> AnthropicClient" where
  "new_Anthropic env_api_key options =
     \<lparr> apiKey = (case opt_apiKey options of
                   None \<Rightarrow> env_api_key
                 | Some k \<Rightarrow> Some k),
       baseURL = opt_baseURL options,
       dangerouslyAllowBrowser = opt_dangerouslyAllowBrowser options \<rparr>"

text \<open>
  The adapter's constructor stores the provider (through the constructor of
  \<open>BaseLLMProvider\<close>, which is outside the sources) and the client built from the
  options above. It checks nothing itself.
\<close>

definition new_AnthropicProvider :: "string option \<Rightarrow> LLMProvider \<Rightarrow> AnthropicProvider" where
  "new_AnthropicProvider env_api_key p =
     \<lparr> provider = p,
       client =
         new_Anthropic env_api_key
           \<lparr> opt_apiKey = prov_apiKey p,
             opt_baseURL = (case prov_baseUrl p of
                              None \<Rightarrow> None
                            | Some u \<Rightarrow> if u = [] then None else Some (strip_trailing_slashes u)),
             opt_dangerouslyAllowBrowser = True \<rparr> \<rparr>"

text \<open>\<open>!this.client.apiKey\<close>: the key is absent or the empty string.\<close>

definition apiKey_missing :: "AnthropicProvider \<Rightarrow> bool" where
  "apiKey_missing a = (case apiKey (client a) of None \<Rightarrow> True | Some k \<Rightarrow> k = [])"

subsection \<open>Request translation\<close>

text \<open>
  \<open>validateSystemMessages\<close> returns the content of the only system message, or
  \<open>undefined\<close> when there is none. A string content is returned as it is, also the
  empty string (which is falsy, so the type test is skipped); an array is truthy and not
  a string, so it is rejected.
\<close>

definition validateSystemMessages :: "RequestMessage list \<Rightarrow> error + string option" where
  "validateSystemMessages ms =
     (let systemMessages = filter (\<lambda>m. role m = System) ms in
      if length systemMessages > 1
      then Inl (Error ''Anthropic does not support more than one system message'')
      else (case systemMessages of
              [] \<Rightarrow> Inr None
            | m # _ \<Rightarrow>
                (case content m of
                   StringContent s \<Rightarrow> Inr (Some s)
                 | PartsContent ps \<Rightarrow>
                     Inl (Error ''Anthropic only supports string content for system messages''))))"

definition isMessageEmpty :: "RequestMessage \<Rightarrow> bool" where
  "isMessageEmpty m =
     (case content m of
        StringContent s \<Rightarrow> trim s = []
      | PartsContent ps \<Rightarrow> length ps = 0)"

definition SUPPORTED_IMAGE_TYPES :: "string list" where
  "SUPPORTED_IMAGE_TYPES = [''image/jpeg'', ''image/png'', ''image/gif'', ''image/webp'']"

definition validateImageType :: "string \<Rightarrow> error + unit" where
  "validateImageType mimeType =
     (if mimeType \<notin> set SUPPORTED_IMAGE_TYPES
      then Inl (Error (''Anthropic does not support image type '' @ mimeType @
                       ''. Supported types: '' @ join '', '' SUPPORTED_IMAGE_TYPES))
      else Inr ())"

text \<open>
  \<open>Array.prototype.map\<close> with a callback that may throw: the elements are visited from
  the left and the first exception ends the call.
\<close>

fun map_throwing :: "('a \<Rightarrow> error + 'b) \<Rightarrow> 'a list \<Rightarrow> error + 'b list" where
  "map_throwing f [] = Inr []"
| "map_throwing f (x # xs) =
     (case f x of
        Inl e \<Rightarrow> Inl e
      | Inr y \<Rightarrow> (case map_throwing f xs of Inl e \<Rightarrow> Inl e | Inr ys \<Rightarrow> Inr (y # ys)))"

text \<open>
  \<open>parseImageDataUrl\<close> (utils/llm/image) is not among the sources; it is a parameter
  of the model: a function from the reference to the pair \<open>(mimeType, base64Data)\<close>, or
  to the error it raises.
\<close>

type_synonym image_decoder = "string \<Rightarrow> error + (string \<times> string)"

text \<open>
  The callback that \<open>parseRequestMessage\<close> maps over the parts of a user message.
\<close>

definition parsePart :: "image_decoder \<Rightarrow> ContentPart \<Rightarrow> error + BlockParam" where
  "parsePart parseImageDataUrl part =
     (case part of
        TextContent t \<Rightarrow> Inr (TextBlockParam t)
      | ImageContentPart url \<Rightarrow>
          (case parseImageDataUrl url of
             Inl e \<Rightarrow> Inl e
           | Inr (mimeType, base64Data) \<Rightarrow>
               (case validateImageType mimeType of
                  Inl e \<Rightarrow> Inl e
                | Inr _ \<Rightarrow> Inr (ImageBlockParam base64Data mimeType))))"

definition parseRequestMessage :: "image_decoder \<Rightarrow> RequestMessage \<Rightarrow> error + MessageParam" where
  "parseRequestMessage parseImageDataUrl message =
     (if role message \<noteq> User \<and> role message \<noteq> Assistant
      then Inl (Error (''Anthropic does not support role: '' @ role_name (role message)))
      else (case (role message, content message) of
              (User, PartsContent ps) \<Rightarrow>
                (case map_throwing (parsePart parseImageDataUrl) ps of
                   Inl e \<Rightarrow> Inl e
                 | Inr blocks \<Rightarrow> Inr \<lparr> mp_role = User, mp_content = Blocks blocks \<rparr>)
            | _ \<Rightarrow> Inr \<lparr> mp_role = role message, mp_content = AsString (content message) \<rparr>))"

text \<open>
  The argument of \<open>client.messages.create\<close>, written out twice in the source
  (\<open>generateResponse\<close>, and \<open>streamResponse\<close> with \<open>stream: true\<close>). Building it
  raises when a message fails to translate.
\<close>

definition create_params ::
  "image_decoder \<Rightarrow> ChatModel \<Rightarrow> LLMRequest \<Rightarrow> string option \<Rightarrow> bool \<Rightarrow> error + MessageCreateParams"
where
  "create_params parseImageDataUrl model request systemMessage streaming =
     (case map_throwing (parseRequestMessage parseImageDataUrl)
             (filter (\<lambda>m. \<not> isMessageEmpty m)
                (filter (\<lambda>m. role m \<noteq> System) (messages request))) of
        Inl e \<Rightarrow> Inl e
      | Inr ms \<Rightarrow>
          Inr \<lparr> p_model = req_model request,
                p_messages = ms,
                p_system = systemMessage,
                p_thinking = (case thinking model of
                                None \<Rightarrow> None
                              | Some t \<Rightarrow> Some \<lparr> tp_type = ''enabled'',
                                                 tp_budget_tokens = budget_tokens t \<rparr>),
                p_max_tokens = (case max_tokens request of
                                  Some n \<Rightarrow> n
                                | None \<Rightarrow>
                                    (case thinking model of
                                       Some t \<Rightarrow> budget_tokens t + DEFAULT_MAX_TOKENS
                                     | None \<Rightarrow> DEFAULT_MAX_TOKENS)),
                p_temperature = temperature request,
                p_top_p = top_p request,
                p_stream = streaming \<rparr>)"

subsection \<open>Error classification (the \<open>catch\<close> block of both calls)\<close>

definition CORS_MARKER :: string where
  "CORS_MARKER = ''CORS requests are not allowed for this Organization''"

definition cors_message :: "string \<Rightarrow> string" where
  "cors_message pid =
     ''Provider '' @ pid @
     '' is experiencing a CORS issue. This is a known issue with new individual Anthropic accounts.'' @
     [CHR 0x0A, CHR 0x0A] @
     ''To resolve this issue:'' @ [CHR 0x0A, CHR 0x0A] @
     ''1. Go to https://console.anthropic.com/settings/organization'' @ [CHR 0x0A] @
     ''2. Create a new organization'' @ [CHR 0x0A] @
     ''3. Your API key should work properly after creating an organization'' @
     [CHR 0x0A, CHR 0x0A] @
     ''For more information, please refer to the following issue:'' @ [CHR 0x0A] @
     ''https://github.com/glowingjade/obsidian-smart-composer/issues/286''"

definition invalid_key_message :: "string \<Rightarrow> string" where
  "invalid_key_message pid =
     ''Provider '' @ pid @ '' API key is invalid. Please update it in settings menu.''"

definition missing_key_message :: "string \<Rightarrow> string" where
  "missing_key_message pid =
     ''Provider '' @ pid @ '' API key is missing. Please set it in settings menu.''"

definition rethrow :: "AnthropicProvider \<Rightarrow> error \<Rightarrow> error" where
  "rethrow a e =
     (case e of
        VendorError (AuthenticationError msg) \<Rightarrow>
          if string_includes msg CORS_MARKER
          then LLMAPIKeyInvalidException (cors_message (prov_id (provider a)))
                 (AuthenticationError msg)
          else LLMAPIKeyInvalidException (invalid_key_message (prov_id (provider a)))
                 (AuthenticationError msg)
      | _ \<Rightarrow> e)"

subsection \<open>Response translation\<close>

definition parseNonStreamingResponse :: "AnthropicMessage \<Rightarrow> error + LLMResponseNonStreaming" where
  "parseNonStreamingResponse response =
     (case am_content response of
        [] \<Rightarrow> Inl (TypeError ''Cannot read properties of undefined (reading 'type')'')
      | ToolUseBlock i n # _ \<Rightarrow> Inl (Error ''Unsupported content type: tool_use'')
      | _ \<Rightarrow>
          (let textContent =
                 concat (map (\<lambda>c. case c of TextBlock t \<Rightarrow> t | _ \<Rightarrow> [])
                           (filter (\<lambda>c. case c of TextBlock t \<Rightarrow> True | _ \<Rightarrow> False)
                              (am_content response)));
               joined =
                 concat (map (\<lambda>c. case c of ThinkingBlock t \<Rightarrow> t | _ \<Rightarrow> [])
                           (filter (\<lambda>c. case c of ThinkingBlock t \<Rightarrow> True | _ \<Rightarrow> False)
                              (am_content response)));
               reasoningContent = (if joined = [] then None else Some joined)
           in Inr \<lparr> r_id = am_id response,
                    r_choices =
                      [\<lparr> nc_finish_reason = am_stop_reason response,
                         nc_message = \<lparr> msg_content = textContent,
                                        msg_reasoning = reasoningContent,
                                        msg_role = am_role response \<rparr> \<rparr>],
                    r_model = am_model response,
                    r_object = ''chat.completion'',
                    r_usage = \<lparr> prompt_tokens = am_input_tokens response,
                                completion_tokens = am_output_tokens response,
                                total_tokens =
                                  am_input_tokens response + am_output_tokens response \<rparr> \<rparr>))"

definition parseStreamingResponseChunk ::
  "MessageStreamEvent \<Rightarrow> string \<Rightarrow> string \<Rightarrow> error + LLMResponseStreaming"
where
  "parseStreamingResponseChunk chunk messageId model =
     (case chunk of
        ContentBlockDelta delta \<Rightarrow>
          (case delta of
             InputJsonDelta j \<Rightarrow> Inl (Error ''Unsupported content type: input_json_delta'')
           | _ \<Rightarrow>
               Inr \<lparr> c_id = messageId,
                     c_choices =
                       [\<lparr> sc_finish_reason = None,
                          sc_delta =
                            \<lparr> d_content = (case delta of TextDelta t \<Rightarrow> Some t | _ \<Rightarrow> None),
                              d_reasoning =
                                (case delta of ThinkingDelta t \<Rightarrow> Some t | _ \<Rightarrow> None) \<rparr> \<rparr>],
                     c_object = ''chat.completion.chunk'',
                     c_model = model,
                     c_usage = None \<rparr>)
      | _ \<Rightarrow> Inl (Error ''Unsupported chunk type''))"

subsection \<open>The streaming generator\<close>

text \<open>The three local variables of \<open>streamResponseGenerator\<close>.\<close>

record Accumulator =
  messageId :: string
  acc_model :: string
  usage :: ResponseUsage

definition initial_accumulator :: Accumulator where
  "initial_accumulator =
     \<lparr> messageId = [], acc_model = [],
       usage = \<lparr> prompt_tokens = 0, completion_tokens = 0, total_tokens = 0 \<rparr> \<rparr>"

text \<open>The chunk yielded after the loop.\<close>

definition final_chunk :: "Accumulator \<Rightarrow> LLMResponseStreaming" where
  "final_chunk a =
     \<lparr> c_id = messageId a, c_choices = [], c_object = ''chat.completion.chunk'',
       c_model = acc_model a, c_usage = Some (usage a) \<rparr>"

text \<open>
  The \<open>for await\<close> loop and the final \<open>yield\<close>. The result is the sequence of chunks
  the generator yields and how it ends: \<open>None\<close> when it returns, \<open>Some e\<close> when it
  raises \<open>e\<close> (chunks yielded before the exception have reached the consumer).
\<close>

fun generator_loop ::
  "Accumulator \<Rightarrow> MessageStreamEvent list \<Rightarrow> vendor_error option \<Rightarrow>
   LLMResponseStreaming list \<times> error option"
where
  "generator_loop a [] None = ([final_chunk a], None)"
| "generator_loop a [] (Some e) = ([], Some (VendorError e))"
| "generator_loop a (MessageStart mid m input_tokens output_tokens # rest) fl =
     generator_loop
       \<lparr> messageId = mid, acc_model = m,
         usage = \<lparr> prompt_tokens = input_tokens, completion_tokens = output_tokens,
                   total_tokens = input_tokens + output_tokens \<rparr> \<rparr> rest fl"
| "generator_loop a (ContentBlockDelta d # rest) fl =
     (case parseStreamingResponseChunk (ContentBlockDelta d) (messageId a) (acc_model a) of
        Inl e \<Rightarrow> ([], Some e)
      | Inr c \<Rightarrow> (case generator_loop a rest fl of (cs, r) \<Rightarrow> (c # cs, r)))"
| "generator_loop a (MessageDelta output_tokens # rest) fl =
     generator_loop
       (a\<lparr> usage := \<lparr> prompt_tokens = prompt_tokens (usage a),
                      completion_tokens = completion_tokens (usage a) + output_tokens,
                      total_tokens = total_tokens (usage a) + output_tokens \<rparr> \<rparr>) rest fl"
| "generator_loop a (_ # rest) fl = generator_loop a rest fl"

definition streamResponseGenerator ::
  "VendorStream \<Rightarrow> LLMResponseStreaming list \<times> error option"
where
  "streamResponseGenerator stream = generator_loop initial_accumulator (events stream) (failure stream)"

subsection \<open>The two calls\<close>

text \<open>
  The vendor transport (\<open>client.messages.create\<close>) is a parameter: it maps the
  transmitted parameters to the vendor's reply or to the error it raises. Each call
  returns its outcome together with the list of parameters it handed to the transport,
  so that a call that never reaches the transport returns the empty list.
\<close>

definition generateResponse ::
  "AnthropicProvider \<Rightarrow> image_decoder \<Rightarrow> (MessageCreateParams \<Rightarrow> vendor_error + AnthropicMessage) \<Rightarrow>
   ChatModel \<Rightarrow> LLMRequest \<Rightarrow> (error + LLMResponseNonStreaming) \<times> MessageCreateParams list"
where
  "generateResponse a parseImageDataUrl create model request =
     (if providerType model \<noteq> ''anthropic''
      then (Inl (Error ''Model is not a Anthropic model''), [])
      else if apiKey_missing a
      then (Inl (LLMAPIKeyNotSetException (missing_key_message (prov_id (provider a)))), [])
      else (case validateSystemMessages (messages request) of
              Inl e \<Rightarrow> (Inl e, [])
            | Inr systemMessage \<Rightarrow>
                (case create_params parseImageDataUrl model request systemMessage False of
                   Inl e \<Rightarrow> (Inl (rethrow a e), [])
                 | Inr params \<Rightarrow>
                     (case create params of
                        Inl ve \<Rightarrow> (Inl (rethrow a (VendorError ve)), [params])
                      | Inr response \<Rightarrow>
                          (case parseNonStreamingResponse response of
                             Inl e \<Rightarrow> (Inl (rethrow a e), [params])
                           | Inr r \<Rightarrow> (Inr r, [params]))))))"

text \<open>
  \<open>streamResponse\<close> returns the generator; the model returns what consuming it to its
  end gives. Building the parameters and calling the transport are covered by the
  \<open>catch\<close> block; what the generator raises while it is consumed is not.
\<close>

definition streamResponse ::
  "AnthropicProvider \<Rightarrow> image_decoder \<Rightarrow> (MessageCreateParams \<Rightarrow> vendor_error + VendorStream) \<Rightarrow>
   ChatModel \<Rightarrow> LLMRequest \<Rightarrow>
   (error + LLMResponseStreaming list \<times> error option) \<times> MessageCreateParams list"
where
  "streamResponse a parseImageDataUrl create model request =
     (if providerType model \<noteq> ''anthropic''
      then (Inl (Error ''Model is not a Anthropic model''), [])
      else if apiKey_missing a
      then (Inl (LLMAPIKeyNotSetException (missing_key_message (prov_id (provider a)))), [])
      else (case validateSystemMessages (messages request) of
              Inl e \<Rightarrow> (Inl e, [])
            | Inr systemMessage \<Rightarrow>
                (case create_params parseImageDataUrl model request systemMessage True of
                   Inl e \<Rightarrow> (Inl (rethrow a e), [])
                 | Inr params \<Rightarrow>
                     (case create params of
                        Inl ve \<Rightarrow> (Inl (rethrow a (VendorError ve)), [params])
                      | Inr stream \<Rightarrow> (Inr (streamResponseGenerator stream), [params])))))"

section \<open>Auxiliary notions for the statements\<close>

subsection \<open>Streams\<close>

text \<open>The accumulator after a list of events: the assignments of the loop, without the yields.\<close>

fun accumulate :: "Accumulator \<Rightarrow> MessageStreamEvent list \<Rightarrow> Accumulator" where
  "accumulate a [] = a"
| "accumulate a (MessageStart mid m input_tokens output_tokens # rest) =
     accumulate
       \<lparr> messageId = mid, acc_model = m,
         usage = \<lparr> prompt_tokens = input_tokens, completion_tokens = output_tokens,
                   total_tokens = input_tokens + output_tokens \<rparr> \<rparr> rest"
| "accumulate a (MessageDelta output_tokens # rest) =
     accumulate
       (a\<lparr> usage := \<lparr> prompt_tokens = prompt_tokens (usage a),
                      completion_tokens = completion_tokens (usage a) + output_tokens,
                      total_tokens = total_tokens (usage a) + output_tokens \<rparr> \<rparr>) rest"
| "accumulate a (_ # rest) = accumulate a rest"

fun is_message_start :: "MessageStreamEvent \<Rightarrow> bool" where
  "is_message_start (MessageStart mid m i out) = True"
| "is_message_start _ = False"

fun is_input_json_delta :: "MessageStreamEvent \<Rightarrow> bool" where
  "is_input_json_delta (ContentBlockDelta (InputJsonDelta j)) = True"
| "is_input_json_delta _ = False"

text \<open>The sum of the output-token increments of the \<open>message_delta\<close> events of a stream.\<close>

definition metadata_delta_sum :: "MessageStreamEvent list \<Rightarrow> int" where
  "metadata_delta_sum evs = sum_list (map (\<lambda>e. case e of MessageDelta n \<Rightarrow> n | _ \<Rightarrow> 0) evs)"

subsection \<open>Requests\<close>

fun is_parts :: "MessageContent \<Rightarrow> bool" where
  "is_parts (PartsContent ps) = True"
| "is_parts (StringContent s) = False"

definition is_system :: "RequestMessage \<Rightarrow> bool" where
  "is_system m \<longleftrightarrow> role m = System"

definition is_system_with_parts :: "RequestMessage \<Rightarrow> bool" where
  "is_system_with_parts m \<longleftrightarrow> role m = System \<and> is_parts (content m)"


text \<open>
  The two errors of \<open>validateSystemMessages\<close>, which the specification groups under the
  kind \<open>UnsupportedRequestShape\<close>.
\<close>

definition UNSUPPORTED_REQUEST_SHAPE :: "error set" where
  "UNSUPPORTED_REQUEST_SHAPE =
     {Error ''Anthropic does not support more than one system message'',
      Error ''Anthropic only supports string content for system messages''}"

text \<open>The references of the image parts of a part list, and of a user message.\<close>

fun image_urls :: "ContentPart list \<Rightarrow> string list" where
  "image_urls [] = []"
| "image_urls (ImageContentPart url # ps) = url # image_urls ps"
| "image_urls (TextContent t # ps) = image_urls ps"

definition user_image_urls :: "RequestMessage \<Rightarrow> string list" where
  "user_image_urls m =
     (case (role m, content m) of
        (User, PartsContent ps) \<Rightarrow> image_urls ps
      | _ \<Rightarrow> [])"

definition decodes :: "image_decoder \<Rightarrow> string \<Rightarrow> bool" where
  "decodes dec url = (case dec url of Inr r \<Rightarrow> True | Inl e \<Rightarrow> False)"

definition decodes_to_unsupported :: "image_decoder \<Rightarrow> string \<Rightarrow> bool" where
  "decodes_to_unsupported dec url =
     (case dec url of
        Inr (mimeType, base64Data) \<Rightarrow> mimeType \<notin> set SUPPORTED_IMAGE_TYPES
      | Inl e \<Rightarrow> False)"

text \<open>
  The mime type of the first reference of a list that decodes to a type outside the
  allow-list.
\<close>

fun first_unsupported_type :: "image_decoder \<Rightarrow> string list \<Rightarrow> string option" where
  "first_unsupported_type dec [] = None"
| "first_unsupported_type dec (u # us) =
     (case dec u of
        Inr (mimeType, base64Data) \<Rightarrow>
          if mimeType \<notin> set SUPPORTED_IMAGE_TYPES then Some mimeType
          else first_unsupported_type dec us
      | Inl e \<Rightarrow> first_unsupported_type dec us)"

text \<open>
  The error the specification calls \<open>UnsupportedImageType\<close>: its message names the
  rejected type and lists the four allowed ones.
\<close>

definition unsupported_image_type :: "string \<Rightarrow> error" where
  "unsupported_image_type mimeType =
     Error (''Anthropic does not support image type '' @ mimeType @
            ''. Supported types: image/jpeg, image/png, image/gif, image/webp'')"

text \<open>
  What translating the image references of a list raises, in order: the decoder's error
  at the first reference that does not decode, or the error above at the first reference
  of a type outside the allow-list, whichever comes first.
\<close>

fun image_failure :: "image_decoder \<Rightarrow> string list \<Rightarrow> error option" where
  "image_failure dec [] = None"
| "image_failure dec (u # us) =
     (case dec u of
        Inl e \<Rightarrow> Some e
      | Inr (mimeType, base64Data) \<Rightarrow>
          if mimeType \<in> set SUPPORTED_IMAGE_TYPES then image_failure dec us
          else Some (unsupported_image_type mimeType))"

subsection \<open>Replies\<close>

fun is_tool_use :: "ContentBlock \<Rightarrow> bool" where
  "is_tool_use (ToolUseBlock i n) = True"
| "is_tool_use _ = False"

text \<open>The text a block contributes to the message body: its text if it is a text block.\<close>

fun block_text :: "ContentBlock \<Rightarrow> string" where
  "block_text (TextBlock t) = t"
| "block_text _ = []"

section \<open>Sample configurations, requests and collaborators\<close>

text \<open>
  Concrete inputs on which the model is run below. The decoder stands for
  \<open>parseImageDataUrl\<close> on two data URLs and rejects every other reference.
\<close>

definition example_decoder :: image_decoder where
  "example_decoder url =
     (if url = ''data:image/png;base64,iVBORw=='' then Inr (''image/png'', ''iVBORw=='')
      else if url = ''data:image/bmp;base64,Qk0='' then Inr (''image/bmp'', ''Qk0='')
      else Inl (Error ''Invalid image data URL format''))"

definition example_reply :: AnthropicMessage where
  "example_reply =
     \<lparr> am_id = ''msg_1'', am_content = [TextBlock ''Hello''], am_model = ''claude'',
       am_role = ''assistant'', am_stop_reason = Some ''end_turn'',
       am_input_tokens = 10, am_output_tokens = 2 \<rparr>"

definition example_create :: "MessageCreateParams \<Rightarrow> vendor_error + AnthropicMessage" where
  "example_create params = Inr example_reply"

definition example_tool_reply :: AnthropicMessage where
  "example_tool_reply =
     \<lparr> am_id = ''msg_2'',
       am_content = [TextBlock ''Let me '', ToolUseBlock ''toolu_1'' ''get_weather'', TextBlock ''check.''],
       am_model = ''claude'', am_role = ''assistant'', am_stop_reason = Some ''tool_use'',
       am_input_tokens = 10, am_output_tokens = 7 \<rparr>"

definition example_create_tool :: "MessageCreateParams \<Rightarrow> vendor_error + AnthropicMessage" where
  "example_create_tool params = Inr example_tool_reply"










definition example_stream :: VendorStream where
  "example_stream =
     \<lparr> events = [MessageStart ''msg_1'' ''claude'' 10 1, ContentBlockDelta (TextDelta ''Hello''),
                 MessageDelta 2, MessageStop],
       failure = None \<rparr>"

definition example_create_stream :: "MessageCreateParams \<Rightarrow> vendor_error + VendorStream" where
  "example_create_stream params = Inr example_stream"

definition example_adapter :: AnthropicProvider where
  "example_adapter =
     new_AnthropicProvider None
       \<lparr> prov_id = ''anthropic'', prov_apiKey = Some ''sk-ant-1'', prov_baseUrl = None \<rparr>"

definition example_keyless_adapter :: AnthropicProvider where
  "example_keyless_adapter =
     new_AnthropicProvider None
       \<lparr> prov_id = ''anthropic'', prov_apiKey = None, prov_baseUrl = None \<rparr>"

definition example_model :: ChatModel where
  "example_model =
     \<lparr> cm_id = ''claude-3.7-sonnet'', providerType = ''anthropic'',
       cm_model = ''claude-3-7-sonnet-latest'', thinking = None \<rparr>"

definition example_thinking_model :: ChatModel where
  "example_thinking_model =
     \<lparr> cm_id = ''claude-3.7-sonnet-thinking'', providerType = ''anthropic'',
       cm_model = ''claude-3-7-sonnet-latest'', thinking = Some \<lparr> budget_tokens = 2048 \<rparr> \<rparr>"

definition example_openai_model :: ChatModel where
  "example_openai_model =
     \<lparr> cm_id = ''gpt-4o'', providerType = ''openai'', cm_model = ''gpt-4o'', thinking = None \<rparr>"

definition example_request :: LLMRequest where
  "example_request =
     \<lparr> messages = [\<lparr> role = System, content = StringContent ''Be terse'' \<rparr>,
                   \<lparr> role = User, content = StringContent ''   '' \<rparr>,
                   \<lparr> role = User, content = StringContent ''Hi'' \<rparr>],
       req_model = ''claude-3-7-sonnet-latest'', max_tokens = None, temperature = None,
       top_p = None \<rparr>"

definition example_two_system_request :: LLMRequest where
  "example_two_system_request =
     \<lparr> messages = [\<lparr> role = System, content = StringContent ''Be terse'' \<rparr>,
                   \<lparr> role = System, content = StringContent ''Be kind'' \<rparr>,
                   \<lparr> role = User, content = StringContent ''Hi'' \<rparr>],
       req_model = ''claude-3-7-sonnet-latest'', max_tokens = None, temperature = None,
       top_p = None \<rparr>"

definition example_image_request :: LLMRequest where
  "example_image_request =
     \<lparr> messages = [\<lparr> role = User,
                     content = PartsContent [TextContent ''What is this?'',
                                             ImageContentPart ''data:image/bmp;base64,Qk0=''] \<rparr>],
       req_model = ''claude-3-7-sonnet-latest'', max_tokens = None, temperature = None,
       top_p = None \<rparr>"

definition example_image_then_undecodable_request :: LLMRequest where
  "example_image_then_undecodable_request =
     \<lparr> messages = [\<lparr> role = User,
                     content = PartsContent [ImageContentPart ''data:image/bmp;base64,Qk0='',
                                             ImageContentPart ''not a data URL''] \<rparr>],
       req_model = ''claude-3-7-sonnet-latest'', max_tokens = None, temperature = None,
       top_p = None \<rparr>"

definition example_assistant_image_request :: LLMRequest where
  "example_assistant_image_request =
     \<lparr> messages = [\<lparr> role = User, content = StringContent ''Draw a square'' \<rparr>,
                   \<lparr> role = Assistant,
                     content = PartsContent [ImageContentPart ''data:image/bmp;base64,Qk0=''] \<rparr>],
       req_model = ''claude-3-7-sonnet-latest'', max_tokens = None, temperature = None,
       top_p = None \<rparr>"

definition example_assistant_parts_request :: LLMRequest where
  "example_assistant_parts_request =
     \<lparr> messages = [\<lparr> role = User, content = StringContent ''Hi'' \<rparr>,
                   \<lparr> role = Assistant,
                     content = PartsContent [TextContent ''Hello'', TextContent ''there''] \<rparr>],
       req_model = ''claude-3-7-sonnet-latest'', max_tokens = Some 100, temperature = None,
       top_p = None \<rparr>"

section \<open>Evaluation rules\<close>

lemmas adapter_defs =
  generateResponse_def streamResponse_def new_AnthropicProvider_def new_Anthropic_def
  apiKey_missing_def
  validateSystemMessages_def create_params_def isMessageEmpty_def trim_def is_whitespace_def
  parseRequestMessage_def parsePart_def validateImageType_def SUPPORTED_IMAGE_TYPES_def
  parseNonStreamingResponse_def parseStreamingResponseChunk_def streamResponseGenerator_def
  initial_accumulator_def final_chunk_def DEFAULT_MAX_TOKENS_def rethrow_def
  missing_key_message_def invalid_key_message_def

lemmas example_defs =
  example_adapter_def example_decoder_def example_create_def example_reply_def
  example_create_stream_def example_stream_def example_model_def example_request_def

section \<open>Lemmas about the generator\<close>

lemma parse_chunk_ok:
  "\<not> is_input_json_delta (ContentBlockDelta d) \<Longrightarrow>
   \<exists>c. parseStreamingResponseChunk (ContentBlockDelta d) i m = Inr c \<and>
       c_usage c = None \<and> c_choices c \<noteq> []"
  by (cases d) (simp_all add: parseStreamingResponseChunk_def)

lemma parse_chunk_Inr:
  "parseStreamingResponseChunk ev i m = Inr c \<Longrightarrow> c_usage c = None \<and> c_choices c \<noteq> []"
  by (auto simp: parseStreamingResponseChunk_def
           split: MessageStreamEvent.splits ContentDelta.splits)

text \<open>
  A generator that returns has yielded chunks without usage, then the final chunk built
  from the accumulator.
\<close>

lemma loop_shape:
  "generator_loop a evs None = (chunks, None) \<Longrightarrow>
   \<exists>init. chunks = init @ [final_chunk (accumulate a evs)] \<and>
          (\<forall>c\<in>set init. c_usage c = None \<and> c_choices c \<noteq> [])"
proof (induction a evs "None :: vendor_error option" arbitrary: chunks
       rule: generator_loop.induct)
  case (4 a d rest)
  then show ?case
    by (auto split: sum.splits prod.splits dest: parse_chunk_Inr)
qed auto

lemma loop_returns:
  "\<forall>e\<in>set evs. \<not> is_input_json_delta e \<Longrightarrow> snd (generator_loop a evs None) = None"
proof (induction a evs "None :: vendor_error option" rule: generator_loop.induct)
  case (4 a d rest)
  then show ?case using parse_chunk_ok[of d "messageId a" "acc_model a"]
    by (auto split: sum.splits prod.splits)
qed auto

lemma accumulate_no_start:
  "\<forall>e\<in>set evs. \<not> is_message_start e \<Longrightarrow>
   completion_tokens (usage (accumulate a evs)) =
     completion_tokens (usage a) + metadata_delta_sum evs"
  by (induction a evs rule: accumulate.induct) (auto simp: metadata_delta_sum_def)

lemma accumulate_append:
  "accumulate a (xs @ ys) = accumulate (accumulate a xs) ys"
  by (induction a xs rule: accumulate.induct) auto

lemma generator_returns:
  assumes "\<not> list_ex is_input_json_delta evs"
  shows "\<exists>init. streamResponseGenerator \<lparr> events = evs, failure = None \<rparr>
                 = (init @ [final_chunk (accumulate initial_accumulator evs)], None) \<and>
               (\<forall>c\<in>set init. c_usage c = None \<and> c_choices c \<noteq> [])"
proof -
  from assms have "\<forall>e\<in>set evs. \<not> is_input_json_delta e"
    by (simp add: list_ex_iff)
  then have "snd (generator_loop initial_accumulator evs None) = None"
    by (rule loop_returns)
  then obtain chunks where g: "generator_loop initial_accumulator evs None = (chunks, None)"
    by (cases "generator_loop initial_accumulator evs None") simp
  from loop_shape[OF g] g show ?thesis
    by (auto simp: streamResponseGenerator_def)
qed

section \<open>Lemmas about request translation\<close>




lemma create_params_Inr:
  "create_params dec model request sys st = Inr params \<Longrightarrow>
   map_throwing (parseRequestMessage dec)
     (filter (\<lambda>m. role m \<noteq> System \<and> \<not> isMessageEmpty m) (messages request))
     = Inr (p_messages params)
   \<and> p_system params = sys
   \<and> p_max_tokens params =
       (case max_tokens request of
          Some n \<Rightarrow> n
        | None \<Rightarrow> (case thinking model of
                     Some t \<Rightarrow> budget_tokens t + DEFAULT_MAX_TOKENS
                   | None \<Rightarrow> DEFAULT_MAX_TOKENS))"
  by (auto simp: create_params_def split: sum.splits)

text \<open>Parameters reach the transport only after every check has passed.\<close>

lemma generateResponse_transmitted:
  assumes "params \<in> set (snd (generateResponse a dec create model request))"
  shows "\<exists>sys. validateSystemMessages (messages request) = Inr sys \<and>
               create_params dec model request sys False = Inr params \<and>
               providerType model = ''anthropic'' \<and> \<not> apiKey_missing a"
  using assms by (auto simp: generateResponse_def split: if_splits sum.splits)

lemma streamResponse_transmitted:
  assumes "params \<in> set (snd (streamResponse a dec create model request))"
  shows "\<exists>sys. validateSystemMessages (messages request) = Inr sys \<and>
               create_params dec model request sys True = Inr params \<and>
               providerType model = ''anthropic'' \<and> \<not> apiKey_missing a"
  using assms by (auto simp: streamResponse_def split: if_splits sum.splits)







lemma validate_rejects:
  assumes "1 < length (filter is_system ms) \<or> list_ex is_system_with_parts ms"
  shows "\<exists>e\<in>UNSUPPORTED_REQUEST_SHAPE. validateSystemMessages ms = Inl e"
proof (cases "1 < length (filter (\<lambda>m. role m = System) ms)")
  case True
  then show ?thesis by (simp add: validateSystemMessages_def UNSUPPORTED_REQUEST_SHAPE_def)
next
  case False
  with assms obtain m where m: "m \<in> set ms" "role m = System" "is_parts (content m)"
    by (auto simp: is_system_def[abs_def] is_system_with_parts_def list_ex_iff)
  then have "m \<in> set (filter (\<lambda>m. role m = System) ms)" by simp
  with False have "filter (\<lambda>m. role m = System) ms = [m]"
    by (cases "filter (\<lambda>m. role m = System) ms") (auto split: if_splits)
  with m(3) show ?thesis
    by (cases "content m") (simp_all add: validateSystemMessages_def UNSUPPORTED_REQUEST_SHAPE_def)
qed

section \<open>Lemmas about image parts\<close>

lemma validateImageType_cases:
  "validateImageType mt =
     (if mt \<in> set SUPPORTED_IMAGE_TYPES then Inr () else Inl (unsupported_image_type mt))"
  by (simp add: validateImageType_def unsupported_image_type_def SUPPORTED_IMAGE_TYPES_def)

text \<open>
  Translation fails exactly as \<open>image_failure\<close> says: for a part list, for a message
  that is not system-role, for a list of such messages, and for the parameters of a call.
\<close>

lemma parts_failure:
  "(case map_throwing (parsePart dec) ps of Inl e \<Rightarrow> Some e | Inr bs \<Rightarrow> None)
   = image_failure dec (image_urls ps)"
  by (induction ps rule: image_urls.induct)
     (auto simp: parsePart_def validateImageType_cases split: sum.splits)

lemma message_failure:
  assumes "role m \<noteq> System"
  shows "(case parseRequestMessage dec m of Inl e \<Rightarrow> Some e | Inr mp \<Rightarrow> None)
         = image_failure dec (user_image_urls m)"
proof (cases "content m")
  case (StringContent t)
  with assms show ?thesis
    by (cases "role m") (simp_all add: parseRequestMessage_def user_image_urls_def)
next
  case (PartsContent ps)
  with assms parts_failure[of dec ps] show ?thesis
    by (cases "role m")
       (auto simp: parseRequestMessage_def user_image_urls_def split: sum.splits)
qed

lemma image_failure_append:
  "image_failure dec (xs @ ys)
   = (case image_failure dec xs of Some e \<Rightarrow> Some e | None \<Rightarrow> image_failure dec ys)"
  by (induction xs) (auto split: sum.splits)

lemma messages_failure:
  "\<forall>m\<in>set ms. role m \<noteq> System \<Longrightarrow>
   (case map_throwing (parseRequestMessage dec) ms of Inl e \<Rightarrow> Some e | Inr mps \<Rightarrow> None)
   = image_failure dec (concat (map user_image_urls ms))"
proof (induction ms)
  case Nil
  then show ?case by simp
next
  case (Cons m ms)
  then have "role m \<noteq> System" by simp
  from message_failure[OF this, of dec] Cons show ?case
    by (auto simp: image_failure_append split: sum.splits option.splits)
qed

lemma urls_of_transmitted:
  "concat (map user_image_urls
     (filter (\<lambda>m. \<not> isMessageEmpty m) (filter (\<lambda>m. role m \<noteq> System) ms)))
   = concat (map user_image_urls ms)"
proof (induction ms)
  case Nil
  then show ?case by simp
next
  case (Cons m ms)
  have "user_image_urls m = []" if "role m = System \<or> isMessageEmpty m"
    using that
    by (cases "role m"; cases "content m")
       (auto simp: user_image_urls_def isMessageEmpty_def)
  with Cons show ?case by auto
qed

lemma create_params_failure:
  "(case create_params dec model request sys st of Inl e \<Rightarrow> Some e | Inr params \<Rightarrow> None)
   = image_failure dec (concat (map user_image_urls (messages request)))"
proof -
  let ?ms = "filter (\<lambda>m. \<not> isMessageEmpty m)
               (filter (\<lambda>m. role m \<noteq> System) (messages request))"
  have "\<forall>m\<in>set ?ms. role m \<noteq> System" by simp
  from messages_failure[OF this, of dec]
  have "(case map_throwing (parseRequestMessage dec) ?ms of Inl e \<Rightarrow> Some e | Inr mps \<Rightarrow> None)
        = image_failure dec (concat (map user_image_urls (messages request)))"
    by (simp only: urls_of_transmitted)
  then show ?thesis
    unfolding create_params_def by (auto split: sum.splits)
qed

lemma image_failure_Some:
  "list_ex (decodes_to_unsupported dec) urls \<Longrightarrow> \<exists>e. image_failure dec urls = Some e"
  by (induction urls) (auto simp: decodes_to_unsupported_def split: sum.splits)

lemma image_failure_first_unsupported:
  assumes "list_ex (decodes_to_unsupported dec) urls"
    and "list_all (decodes dec) (takeWhile (\<lambda>u. \<not> decodes_to_unsupported dec u) urls)"
  shows "\<exists>mt. first_unsupported_type dec urls = Some mt \<and> mt \<notin> set SUPPORTED_IMAGE_TYPES \<and>
              image_failure dec urls = Some (unsupported_image_type mt)"
  using assms
proof (induction urls)
  case Nil
  then show ?case by simp
next
  case (Cons u us)
  show ?case
  proof (cases "decodes_to_unsupported dec u")
    case True
    then obtain mt d where "dec u = Inr (mt, d)" "mt \<notin> set SUPPORTED_IMAGE_TYPES"
      by (auto simp: decodes_to_unsupported_def split: sum.splits)
    then show ?thesis by simp
  next
    case False
    with Cons.prems have ex: "list_ex (decodes_to_unsupported dec) us"
      and d: "decodes dec u"
      and rest: "list_all (decodes dec) (takeWhile (\<lambda>u. \<not> decodes_to_unsupported dec u) us)"
      by simp_all
    from d False obtain mt b where "dec u = Inr (mt, b)" "mt \<in> set SUPPORTED_IMAGE_TYPES"
      by (auto simp: decodes_def decodes_to_unsupported_def split: sum.splits)
    with Cons.IH[OF ex rest] show ?thesis by simp
  qed
qed

lemma rethrow_unsupported_image_type:
  "rethrow a (unsupported_image_type mt) = unsupported_image_type mt"
  by (simp add: rethrow_def unsupported_image_type_def)


section \<open>Lemmas about error messages and replies\<close>






lemma parse_reply_tool_use:
  "parseNonStreamingResponse r = Inl (Error ''Unsupported content type: tool_use'')
   \<longleftrightarrow> (\<exists>b rest. am_content r = b # rest \<and> is_tool_use b)"
  by (cases "am_content r"; cases "hd (am_content r)")
     (auto simp: parseNonStreamingResponse_def Let_def)

lemma filter_text_blocks:
  "concat (map (\<lambda>c. case c of TextBlock t \<Rightarrow> t | _ \<Rightarrow> [])
             (filter (\<lambda>c. case c of TextBlock t \<Rightarrow> True | _ \<Rightarrow> False) bs))
   = concat (map block_text bs)"
proof (induction bs)
  case (Cons b bs)
  then show ?case by (cases b) simp_all
qed simp

lemma parse_reply_text:
  assumes "am_content r = b # rest" and "\<not> is_tool_use b"
  shows "\<exists>res ch. parseNonStreamingResponse r = Inr res \<and> r_choices res = [ch] \<and>
           msg_content (nc_message ch) = concat (map block_text (am_content r))"
  using assms
  by (cases b)
     (simp_all add: parseNonStreamingResponse_def Let_def filter_text_blocks
               del: filter.simps map_eq_conv)

section \<open>The sample calls\<close>

lemma example_generate_calls:
  "snd (generateResponse example_adapter example_decoder example_create example_model
          example_request)
   = [\<lparr> p_model = ''claude-3-7-sonnet-latest'',
        p_messages = [\<lparr> mp_role = User, mp_content = AsString (StringContent ''Hi'') \<rparr>],
        p_system = Some ''Be terse'', p_thinking = None, p_max_tokens = 8192,
        p_temperature = None, p_top_p = None, p_stream = False \<rparr>]"
  by (simp add: adapter_defs example_defs)

lemma example_thinking_calls:
  "snd (streamResponse example_adapter example_decoder example_create_stream
          example_thinking_model example_request)
   = [\<lparr> p_model = ''claude-3-7-sonnet-latest'',
        p_messages = [\<lparr> mp_role = User, mp_content = AsString (StringContent ''Hi'') \<rparr>],
        p_system = Some ''Be terse'',
        p_thinking = Some \<lparr> tp_type = ''enabled'', tp_budget_tokens = 2048 \<rparr>,
        p_max_tokens = 10240, p_temperature = None, p_top_p = None, p_stream = True \<rparr>]"
  by (simp add: adapter_defs example_defs example_thinking_model_def)





lemma example_tool_calls:
  "snd (generateResponse example_adapter example_decoder example_create_tool example_model
          example_request)
   = [\<lparr> p_model = ''claude-3-7-sonnet-latest'',
        p_messages = [\<lparr> mp_role = User, mp_content = AsString (StringContent ''Hi'') \<rparr>],
        p_system = Some ''Be terse'', p_thinking = None, p_max_tokens = 8192,
        p_temperature = None, p_top_p = None, p_stream = False \<rparr>]"
  by (simp add: adapter_defs example_defs example_create_tool_def example_tool_reply_def)

section \<open>Claims about streaming\<close>

text \<open>
  Claim C1, as the code has it. When the vendor stream is exhausted without raising and
  none of its events is a \<open>content_block_delta\<close> with an \<open>input_json_delta\<close>, the
  generator returns, and the chunks it has yielded are a sequence of chunks that carry no
  usage and a non-empty choices list, followed by exactly one last chunk whose choices
  list is empty and whose usage is present.
\<close>

theorem completed_stream_ends_with_usage_sentinel:
  assumes "\<not> list_ex is_input_json_delta (events s)" and "failure s = None"
  shows "\<exists>init t. streamResponseGenerator s = (init @ [t], None) \<and>
           c_choices t = [] \<and> c_usage t \<noteq> None \<and>
           (\<forall>c\<in>set init. c_usage c = None \<and> c_choices c \<noteq> [])"
proof -
  have "s = \<lparr> events = events s, failure = None \<rparr>"
    using assms(2) by simp
  with generator_returns[OF assms(1)] obtain init where
    "streamResponseGenerator s
       = (init @ [final_chunk (accumulate initial_accumulator (events s))], None)"
    "\<forall>c\<in>set init. c_usage c = None \<and> c_choices c \<noteq> []"
    by metis
  then show ?thesis
    by (auto simp: final_chunk_def)
qed

text \<open>
  The theorem on a stream of a start event, one text delta and one metadata delta: the
  last chunk yielded carries usage.
\<close>

theorem completed_stream_ends_with_usage_sentinel_witness:
  "\<not> list_ex is_input_json_delta
       [MessageStart ''msg_1'' ''claude'' 10 1, ContentBlockDelta (TextDelta ''Hi''), MessageDelta 5]
   \<and> c_usage (last (fst (streamResponseGenerator
        \<lparr> events = [MessageStart ''msg_1'' ''claude'' 10 1, ContentBlockDelta (TextDelta ''Hi''),
                    MessageDelta 5],
          failure = None \<rparr>))) \<noteq> None"
  using completed_stream_ends_with_usage_sentinel
          [of "\<lparr> events = [MessageStart ''msg_1'' ''claude'' 10 1,
                            ContentBlockDelta (TextDelta ''Hi''), MessageDelta 5],
                  failure = None \<rparr>"]
  by auto

text \<open>
  Claim C1 as stated fails on a stream that completes but holds an \<open>input_json_delta\<close>:
  \<open>parseStreamingResponseChunk\<close> raises at that event, so the generator yields the one
  text chunk, which has no usage, and then ends with the error; no final chunk follows.
\<close>

theorem input_json_delta_stream_has_no_sentinel:
  "streamResponseGenerator
     \<lparr> events = [MessageStart ''msg_1'' ''claude'' 10 1, ContentBlockDelta (TextDelta ''Hi''),
                 ContentBlockDelta (InputJsonDelta ''{''), MessageDelta 5, MessageStop],
       failure = None \<rparr>
   = ([\<lparr> c_id = ''msg_1'',
         c_choices = [\<lparr> sc_finish_reason = None,
                        sc_delta = \<lparr> d_content = Some ''Hi'', d_reasoning = None \<rparr> \<rparr>],
         c_object = ''chat.completion.chunk'', c_model = ''claude'', c_usage = None \<rparr>],
      Some (Error ''Unsupported content type: input_json_delta''))"
  by (simp add: streamResponseGenerator_def initial_accumulator_def
      parseStreamingResponseChunk_def)

text \<open>
  Claim C2, as the code has it. On a stream that is exhausted without raising and holds no
  \<open>input_json_delta\<close>, the completion tokens of the last chunk's usage are the output
  tokens of the last \<open>message_start\<close> event plus the sum of the increments of the
  \<open>message_delta\<close> events after it; when the stream has no \<open>message_start\<close> event they
  are the sum of the increments of all its \<open>message_delta\<close> events.
\<close>

theorem terminal_completion_tokens_seed_plus_deltas:
  assumes "\<not> list_ex is_input_json_delta evs"
  shows "(\<not> list_ex is_message_start evs \<longrightarrow>
            map_option completion_tokens
              (c_usage (last (fst (streamResponseGenerator \<lparr> events = evs, failure = None \<rparr>))))
            = Some (metadata_delta_sum evs))
       \<and> (\<forall>pre mid m i out post.
            evs = pre @ MessageStart mid m i out # post \<and> \<not> list_ex is_message_start post \<longrightarrow>
            map_option completion_tokens
              (c_usage (last (fst (streamResponseGenerator \<lparr> events = evs, failure = None \<rparr>))))
            = Some (out + metadata_delta_sum post))"
proof -
  from generator_returns[OF assms]
  have l: "last (fst (streamResponseGenerator \<lparr> events = evs, failure = None \<rparr>))
           = final_chunk (accumulate initial_accumulator evs)"
    by auto
  have a: "\<not> list_ex is_message_start evs \<Longrightarrow>
           completion_tokens (usage (accumulate initial_accumulator evs)) = metadata_delta_sum evs"
    using accumulate_no_start[of evs initial_accumulator]
    by (simp add: list_ex_iff initial_accumulator_def)
  have b: "completion_tokens (usage (accumulate initial_accumulator evs))
           = out + metadata_delta_sum post"
    if "evs = pre @ MessageStart mid m i out # post" "\<not> list_ex is_message_start post"
    for pre mid m i out post
    using that accumulate_no_start[of post]
    by (simp add: accumulate_append list_ex_iff)
  show ?thesis using a b unfolding l by (simp add: final_chunk_def)
qed

text \<open>
  The theorem on a stream whose start event reports one output token and whose two
  metadata deltas report five and two: the last chunk reports eight.
\<close>

theorem terminal_completion_tokens_seed_plus_deltas_witness:
  "\<not> list_ex is_input_json_delta
       [MessageStart ''msg_1'' ''claude'' 10 1, ContentBlockDelta (TextDelta ''Hi''),
        MessageDelta 5, MessageDelta 2]
   \<and> map_option completion_tokens (c_usage (last (fst (streamResponseGenerator
        \<lparr> events = [MessageStart ''msg_1'' ''claude'' 10 1, ContentBlockDelta (TextDelta ''Hi''),
                    MessageDelta 5, MessageDelta 2],
          failure = None \<rparr>))))
     = Some 8"
proof -
  let ?post = "[ContentBlockDelta (TextDelta ''Hi''), MessageDelta 5, MessageDelta 2]"
  let ?evs = "MessageStart ''msg_1'' ''claude'' 10 1 # ?post"
  have h: "\<not> list_ex is_input_json_delta ?evs" by simp
  have "?evs = [] @ MessageStart ''msg_1'' ''claude'' 10 1 # ?post
        \<and> \<not> list_ex is_message_start ?post"
    by simp
  with terminal_completion_tokens_seed_plus_deltas[OF h]
  have "map_option completion_tokens
          (c_usage (last (fst (streamResponseGenerator \<lparr> events = ?evs, failure = None \<rparr>))))
        = Some (1 + metadata_delta_sum ?post)"
    by blast
  with h show ?thesis by (simp add: metadata_delta_sum_def)
qed

text \<open>
  Claim C2 as stated fails when the start event reports output tokens: the accumulator is
  seeded with them, so with one output token at the start and a single increment of five
  the last chunk reports six completion tokens, while the increments sum to five.
\<close>

theorem terminal_completion_tokens_exceed_delta_sum:
  "map_option completion_tokens (c_usage (last (fst (streamResponseGenerator
      \<lparr> events = [MessageStart ''msg_1'' ''claude'' 10 1, MessageDelta 5], failure = None \<rparr>))))
   = Some 6
   \<and> metadata_delta_sum [MessageStart ''msg_1'' ''claude'' 10 1, MessageDelta 5] = 5"
  by (simp add: streamResponseGenerator_def initial_accumulator_def final_chunk_def
      metadata_delta_sum_def)

section \<open>Claims about request translation\<close>



text \<open>
  Claim C4, as the code has it. A request with more than one system-role message, or with
  a system-role message whose content is not a string, never reaches the transport, in
  \<open>generateResponse\<close> and in \<open>streamResponse\<close>. When the model's provider tag is
  \<open>anthropic\<close> and the API key is present, both calls fail with one of the two errors
  of \<open>validateSystemMessages\<close>.
\<close>

theorem unsupported_system_messages_rejected_before_transport:
  assumes "1 < length (filter is_system (messages request)) \<or>
           list_ex is_system_with_parts (messages request)"
  shows "(\<exists>e. generateResponse a dec create model request = (Inl e, []))
       \<and> (\<exists>e. streamResponse a dec create_stream model request = (Inl e, []))
       \<and> (providerType model = ''anthropic'' \<and> \<not> apiKey_missing a \<longrightarrow>
            (\<exists>e\<in>UNSUPPORTED_REQUEST_SHAPE.
               generateResponse a dec create model request = (Inl e, []) \<and>
               streamResponse a dec create_stream model request = (Inl e, [])))"
proof -
  from validate_rejects[OF assms] obtain e where
    "e \<in> UNSUPPORTED_REQUEST_SHAPE" "validateSystemMessages (messages request) = Inl e"
    by blast
  then show ?thesis
    by (auto simp: generateResponse_def streamResponse_def)
qed

text \<open>The theorem on a request with two system messages.\<close>

theorem unsupported_system_messages_rejected_before_transport_witness:
  "1 < length (filter is_system (messages example_two_system_request)) \<and>
   generateResponse example_adapter example_decoder example_create example_model
     example_two_system_request
   = (Inl (Error ''Anthropic does not support more than one system message''), []) \<and>
   snd (streamResponse example_adapter example_decoder example_create_stream example_model
          example_two_system_request) = []"
proof -
  have h: "1 < length (filter is_system (messages example_two_system_request))"
    by (simp add: example_two_system_request_def is_system_def)
  have g: "fst (generateResponse example_adapter example_decoder example_create example_model
                  example_two_system_request)
           = Inl (Error ''Anthropic does not support more than one system message'')"
    by (simp add: adapter_defs example_defs example_two_system_request_def)
  from unsupported_system_messages_rejected_before_transport
         [OF disjI1, OF h, of example_adapter example_decoder example_create example_model
            example_create_stream]
  show ?thesis using h g by auto
qed

text \<open>
  Claim C4 as stated fails when the adapter has no API key: the key is checked before the
  system messages, so the request with two system messages fails with
  \<open>LLMAPIKeyNotSetException\<close>.
\<close>

theorem two_system_messages_without_key_fail_with_key_not_set:
  "generateResponse example_keyless_adapter example_decoder example_create example_model
     example_two_system_request
   = (Inl (LLMAPIKeyNotSetException
            ''Provider anthropic API key is missing. Please set it in settings menu.''), [])"
  by (simp add: generateResponse_def example_keyless_adapter_def new_AnthropicProvider_def new_Anthropic_def
      apiKey_missing_def example_model_def missing_key_message_def)

text \<open>
  Claim C5. Every parameter record handed to the transport, by \<open>generateResponse\<close> or by
  \<open>streamResponse\<close>, has as \<open>max_tokens\<close> the request's value when the request has
  one, and otherwise 8192 when the model has no thinking configuration and the thinking
  budget plus 8192 when it has one.
\<close>

theorem transmitted_max_tokens:
  assumes "params \<in> set (snd (generateResponse a dec create model request)) \<or>
           params \<in> set (snd (streamResponse a dec create_stream model request))"
  shows "p_max_tokens params =
           (case max_tokens request of
              Some n \<Rightarrow> n
            | None \<Rightarrow> (case thinking model of
                         None \<Rightarrow> 8192
                       | Some t \<Rightarrow> budget_tokens t + 8192))"
proof -
  from assms obtain sys st where "create_params dec model request sys st = Inr params"
    using generateResponse_transmitted streamResponse_transmitted by blast
  from create_params_Inr[OF this] show ?thesis
    by (simp add: DEFAULT_MAX_TOKENS_def split: option.splits)
qed

text \<open>
  The theorem on a request without \<open>max_tokens\<close>: with a thinking budget of 2048 the
  streaming call transmits 10240, without thinking the one-shot call transmits 8192.
\<close>

theorem transmitted_max_tokens_witness:
  "p_max_tokens (hd (snd (streamResponse example_adapter example_decoder example_create_stream
                            example_thinking_model example_request))) = 2048 + 8192
   \<and> p_max_tokens (hd (snd (generateResponse example_adapter example_decoder example_create
                            example_model example_request))) = 8192"
proof -
  let ?p = "hd (snd (streamResponse example_adapter example_decoder example_create_stream
                            example_thinking_model example_request))"
  let ?q = "hd (snd (generateResponse example_adapter example_decoder example_create
                            example_model example_request))"
  have h: "?p \<in> set (snd (generateResponse example_adapter example_decoder example_create
                            example_thinking_model example_request)) \<or>
           ?p \<in> set (snd (streamResponse example_adapter example_decoder example_create_stream
                            example_thinking_model example_request))"
    by (simp add: example_thinking_calls)
  have k: "?q \<in> set (snd (generateResponse example_adapter example_decoder example_create
                            example_model example_request)) \<or>
           ?q \<in> set (snd (streamResponse example_adapter example_decoder example_create_stream
                            example_model example_request))"
    by (simp add: example_generate_calls)
  from transmitted_max_tokens[OF h] transmitted_max_tokens[OF k] show ?thesis
    by (simp add: example_thinking_model_def example_model_def example_request_def)
qed

text \<open>
  Claim C6, as the code has it. When a user-role message of the request holds an image
  part that decodes to a mime type outside the allow-list, \<open>generateResponse\<close> and
  \<open>streamResponse\<close> fail and the transport is not called. When moreover the model's
  provider tag is \<open>anthropic\<close>, the API key is present, the system messages are accepted
  and every image part of the user-role messages that comes before the first such part
  decodes, both calls fail with the error that names the mime type of that first part and
  lists the four allowed types.
\<close>

theorem unsupported_user_image_rejected_before_transport:
  assumes "list_ex (decodes_to_unsupported dec) (concat (map user_image_urls (messages request)))"
  shows "(\<exists>e. generateResponse a dec create model request = (Inl e, []))
       \<and> (\<exists>e. streamResponse a dec create_stream model request = (Inl e, []))
       \<and> (providerType model = ''anthropic'' \<and> \<not> apiKey_missing a \<and>
          (\<exists>sys. validateSystemMessages (messages request) = Inr sys) \<and>
          list_all (decodes dec)
            (takeWhile (\<lambda>u. \<not> decodes_to_unsupported dec u)
               (concat (map user_image_urls (messages request)))) \<longrightarrow>
          (\<exists>mt. first_unsupported_type dec (concat (map user_image_urls (messages request)))
                  = Some mt \<and>
                mt \<notin> set SUPPORTED_IMAGE_TYPES \<and>
                generateResponse a dec create model request
                  = (Inl (unsupported_image_type mt), []) \<and>
                streamResponse a dec create_stream model request
                  = (Inl (unsupported_image_type mt), [])))"
proof -
  let ?urls = "concat (map user_image_urls (messages request))"
  from image_failure_Some[OF assms] obtain e0 where e0: "image_failure dec ?urls = Some e0"
    by blast
  have fail: "create_params dec model request sys st = Inl e0" for sys st
    using create_params_failure[of dec model request sys st] e0
    by (cases "create_params dec model request sys st") simp_all
  have g: "\<exists>e. generateResponse a dec create model request = (Inl e, [])"
    unfolding generateResponse_def
    by (cases "validateSystemMessages (messages request)") (simp_all add: fail)
  have s: "\<exists>e. streamResponse a dec create_stream model request = (Inl e, [])"
    unfolding streamResponse_def
    by (cases "validateSystemMessages (messages request)") (simp_all add: fail)
  have k: "\<exists>mt. first_unsupported_type dec ?urls = Some mt \<and>
                mt \<notin> set SUPPORTED_IMAGE_TYPES \<and>
                generateResponse a dec create model request
                  = (Inl (unsupported_image_type mt), []) \<and>
                streamResponse a dec create_stream model request
                  = (Inl (unsupported_image_type mt), [])"
    if p: "providerType model = ''anthropic''" "\<not> apiKey_missing a"
      "validateSystemMessages (messages request) = Inr sys"
      "list_all (decodes dec) (takeWhile (\<lambda>u. \<not> decodes_to_unsupported dec u) ?urls)" for sys
  proof -
    from image_failure_first_unsupported[OF assms p(4)] e0 obtain mt where
      mt: "first_unsupported_type dec ?urls = Some mt" "mt \<notin> set SUPPORTED_IMAGE_TYPES"
          "e0 = unsupported_image_type mt"
      by auto
    with p(1-3) show ?thesis
      unfolding generateResponse_def streamResponse_def
      by (auto simp: fail rethrow_unsupported_image_type)
  qed
  from g s k show ?thesis by blast
qed

text \<open>
  The theorem on a user message with a BMP image followed by a reference that does not
  decode: the call fails with the error that names \<open>image/bmp\<close> and the allowed types,
  without a transport call.
\<close>

theorem unsupported_user_image_rejected_before_transport_witness:
  "list_ex (decodes_to_unsupported example_decoder)
     (concat (map user_image_urls (messages example_image_then_undecodable_request)))
   \<and> generateResponse example_adapter example_decoder example_create example_model
        example_image_then_undecodable_request
     = (Inl (Error (''Anthropic does not support image type image/bmp'' @
                    ''. Supported types: image/jpeg, image/png, image/gif, image/webp'')), [])
   \<and> streamResponse example_adapter example_decoder example_create_stream example_model
        example_image_then_undecodable_request
     = (Inl (Error (''Anthropic does not support image type image/bmp'' @
                    ''. Supported types: image/jpeg, image/png, image/gif, image/webp'')), [])"
proof -
  let ?urls = "concat (map user_image_urls (messages example_image_then_undecodable_request))"
  have u: "?urls = [''data:image/bmp;base64,Qk0='', ''not a data URL'']"
    by (simp add: example_image_then_undecodable_request_def user_image_urls_def)
  have h: "list_ex (decodes_to_unsupported example_decoder) ?urls"
    unfolding u
    by (simp add: decodes_to_unsupported_def example_decoder_def SUPPORTED_IMAGE_TYPES_def)
  have p: "providerType example_model = ''anthropic'' \<and> \<not> apiKey_missing example_adapter \<and>
           (\<exists>sys. validateSystemMessages (messages example_image_then_undecodable_request)
                    = Inr sys) \<and>
           list_all (decodes example_decoder)
             (takeWhile (\<lambda>u. \<not> decodes_to_unsupported example_decoder u) ?urls)"
    unfolding u
    by (simp add: example_model_def example_adapter_def new_AnthropicProvider_def
        new_Anthropic_def apiKey_missing_def validateSystemMessages_def
        example_image_then_undecodable_request_def decodes_to_unsupported_def
        example_decoder_def SUPPORTED_IMAGE_TYPES_def)
  have f: "first_unsupported_type example_decoder ?urls = Some ''image/bmp''"
    unfolding u by (simp add: example_decoder_def SUPPORTED_IMAGE_TYPES_def)
  from unsupported_user_image_rejected_before_transport
         [OF h, of example_adapter example_create example_model example_create_stream] p f
  show ?thesis using h by (auto simp: unsupported_image_type_def)
qed

text \<open>
  Claim C6 as stated fails when the adapter has no API key: the key is checked before any
  message is translated, so the request with the BMP image fails with
  \<open>LLMAPIKeyNotSetException\<close>.
\<close>

theorem unsupported_image_without_key_fails_with_key_not_set:
  "generateResponse example_keyless_adapter example_decoder example_create example_model
     example_image_request
   = (Inl (LLMAPIKeyNotSetException
            ''Provider anthropic API key is missing. Please set it in settings menu.''), [])"
  by (simp add: generateResponse_def example_keyless_adapter_def new_AnthropicProvider_def
      new_Anthropic_def apiKey_missing_def example_model_def missing_key_message_def)

subsection \<open>Multi-part content by role\<close>

text \<open>
  What \<open>parseRequestMessage\<close> does with each role. A system-role message is rejected.
  The parts of a user-role message are translated one by one, a text part into a text
  block and an image part of an allowed type into an image block, and the first part that
  fails to translate fails the message.
\<close>

lemma system_role_is_rejected:
  "role m = System \<Longrightarrow>
   parseRequestMessage dec m = Inl (Error ''Anthropic does not support role: system'')"
  by (simp add: parseRequestMessage_def)

lemma user_parts_are_translated:
  assumes "role m = User" and "content m = PartsContent ps"
  shows "parseRequestMessage dec m =
           (case map_throwing (parsePart dec) ps of
              Inl e \<Rightarrow> Inl e
            | Inr blocks \<Rightarrow> Inr \<lparr> mp_role = User, mp_content = Blocks blocks \<rparr>)"
    and "parsePart dec (TextContent t) = Inr (TextBlockParam t)"
    and "dec url = Inr (mt, d) \<Longrightarrow> mt \<in> set SUPPORTED_IMAGE_TYPES \<Longrightarrow>
         parsePart dec (ImageContentPart url) = Inr (ImageBlockParam d mt)"
  using assms by (simp_all add: parseRequestMessage_def parsePart_def validateImageType_cases)

lemma user_text_parts_become_text_blocks:
  "parseRequestMessage dec \<lparr> role = User, content = PartsContent (map TextContent ts) \<rparr>
   = Inr \<lparr> mp_role = User, mp_content = Blocks (map TextBlockParam ts) \<rparr>"
proof -
  have "map_throwing (parsePart dec) (map TextContent ts) = Inr (map TextBlockParam ts)"
    by (induction ts) (simp_all add: parsePart_def)
  then show ?thesis by (simp add: parseRequestMessage_def)
qed

text \<open>
  An assistant-role message takes the last \<open>return\<close> of \<open>parseRequestMessage\<close>, which
  casts the content to a string. The cast does nothing at run time, so a part list is
  returned as it is: no part is translated, decoded or checked.
\<close>

lemma assistant_content_is_not_inspected:
  "role m = Assistant \<Longrightarrow>
   parseRequestMessage dec m = Inr \<lparr> mp_role = Assistant, mp_content = AsString (content m) \<rparr>"
  by (simp add: parseRequestMessage_def)

lemma assistant_image_of_unsupported_type_is_transmitted:
  "snd (streamResponse example_adapter example_decoder example_create_stream example_model
          example_assistant_image_request)
   = [\<lparr> p_model = ''claude-3-7-sonnet-latest'',
        p_messages =
          [\<lparr> mp_role = User, mp_content = AsString (StringContent ''Draw a square'') \<rparr>,
           \<lparr> mp_role = Assistant,
             mp_content =
               AsString (PartsContent [ImageContentPart ''data:image/bmp;base64,Qk0='']) \<rparr>],
        p_system = None, p_thinking = None, p_max_tokens = 8192,
        p_temperature = None, p_top_p = None, p_stream = True \<rparr>]"
  by (simp add: adapter_defs example_defs example_assistant_image_request_def)

text \<open>
  Claim C8 against the code. The claim asks that multi-part content of a message that is
  not user-role be rejected or coerced. For the assistant role the code does neither: the
  call with an assistant-role message of two text parts succeeds, and the transport
  receives that message with its part list unchanged.
\<close>

theorem assistant_multipart_content_is_transmitted_unchanged:
  "generateResponse example_adapter example_decoder example_create example_model
     example_assistant_parts_request
   = (Inr \<lparr> r_id = ''msg_1'',
            r_choices = [\<lparr> nc_finish_reason = Some ''end_turn'',
                           nc_message = \<lparr> msg_content = ''Hello'', msg_reasoning = None,
                                          msg_role = ''assistant'' \<rparr> \<rparr>],
            r_model = ''claude'', r_object = ''chat.completion'',
            r_usage = \<lparr> prompt_tokens = 10, completion_tokens = 2, total_tokens = 12 \<rparr> \<rparr>,
      [\<lparr> p_model = ''claude-3-7-sonnet-latest'',
         p_messages =
           [\<lparr> mp_role = User, mp_content = AsString (StringContent ''Hi'') \<rparr>,
            \<lparr> mp_role = Assistant,
              mp_content =
                AsString (PartsContent [TextContent ''Hello'', TextContent ''there'']) \<rparr>],
         p_system = None, p_thinking = None, p_max_tokens = 100,
         p_temperature = None, p_top_p = None, p_stream = False \<rparr>])"
  by (simp add: adapter_defs example_defs example_assistant_parts_request_def)

section \<open>Claims about errors and replies\<close>




text \<open>
  Claim C9, as the code has it. Constructing the adapter never fails; the client it builds
  holds the provider's API key when there is one, and otherwise the key of the
  environment variable \<open>ANTHROPIC_API_KEY\<close>, so it holds no key when both are absent.
  While the client holds no key, neither call reaches the transport: with a model whose
  provider tag is \<open>anthropic\<close> both calls fail with \<open>LLMAPIKeyNotSetException\<close>, and
  with any other model both fail with the error about the model.
\<close>

theorem missing_key_rejected_before_transport:
  assumes "apiKey_missing a"
  shows "(providerType model = ''anthropic'' \<longrightarrow>
            generateResponse a dec create model request
              = (Inl (LLMAPIKeyNotSetException (missing_key_message (prov_id (provider a)))), [])
          \<and> streamResponse a dec create_stream model request
              = (Inl (LLMAPIKeyNotSetException (missing_key_message (prov_id (provider a)))), []))
       \<and> (providerType model \<noteq> ''anthropic'' \<longrightarrow>
            generateResponse a dec create model request
              = (Inl (Error ''Model is not a Anthropic model''), [])
          \<and> streamResponse a dec create_stream model request
              = (Inl (Error ''Model is not a Anthropic model''), []))
       \<and> provider (new_AnthropicProvider env p) = p
       \<and> apiKey (client (new_AnthropicProvider env p))
           = (case prov_apiKey p of None \<Rightarrow> env | Some k \<Rightarrow> Some k)
       \<and> (prov_apiKey p = None \<and> env = None \<longrightarrow> apiKey_missing (new_AnthropicProvider env p))"
  using assms
  by (simp add: generateResponse_def streamResponse_def new_AnthropicProvider_def
      new_Anthropic_def apiKey_missing_def)

text \<open>
  The theorem on the adapter built without a key, with no key in the environment, and an
  Anthropic model: both calls fail with \<open>LLMAPIKeyNotSetException\<close>. Built from the
  same provider record with a key in the environment, the client holds that key.
\<close>

theorem missing_key_rejected_before_transport_witness:
  "apiKey_missing example_keyless_adapter
   \<and> generateResponse example_keyless_adapter example_decoder example_create example_model
       example_request
     = (Inl (LLMAPIKeyNotSetException
              ''Provider anthropic API key is missing. Please set it in settings menu.''), [])
   \<and> streamResponse example_keyless_adapter example_decoder example_create_stream example_model
       example_request
     = (Inl (LLMAPIKeyNotSetException
              ''Provider anthropic API key is missing. Please set it in settings menu.''), [])
   \<and> apiKey (client (new_AnthropicProvider (Some ''sk-ant-env'')
                       \<lparr> prov_id = ''anthropic'', prov_apiKey = None, prov_baseUrl = None \<rparr>))
     = Some ''sk-ant-env''"
proof -
  have h: "apiKey_missing example_keyless_adapter"
    by (simp add: example_keyless_adapter_def new_AnthropicProvider_def new_Anthropic_def
        apiKey_missing_def)
  have m: "providerType example_model = ''anthropic''" by (simp add: example_model_def)
  have i: "prov_id (provider example_keyless_adapter) = ''anthropic''"
    by (simp add: example_keyless_adapter_def new_AnthropicProvider_def)
  from missing_key_rejected_before_transport
         [OF h, where dec = example_decoder and create = example_create
            and create_stream = example_create_stream and model = example_model
            and request = example_request and env = "Some ''sk-ant-env''"
            and p = "\<lparr> prov_id = ''anthropic'', prov_apiKey = None, prov_baseUrl = None \<rparr>"]
  show ?thesis using h m i
    by (simp add: missing_key_message_def)
qed

text \<open>
  Claim C9 as stated fails for a model of another provider: the provider tag is checked
  before the key, so the call on the adapter without a key fails with the plain error
  about the model.
\<close>

theorem missing_key_with_foreign_model_fails_with_mismatch:
  "generateResponse example_keyless_adapter example_decoder example_create example_openai_model
     example_request
   = (Inl (Error ''Model is not a Anthropic model''), [])"
  by (simp add: generateResponse_def example_openai_model_def)

text \<open>
  Claim C10. When the transport of \<open>generateResponse\<close> returns a reply, the call fails
  with the error about \<open>tool_use\<close> exactly when the first content block of the reply is
  a tool use. When the reply has a first block that is not a tool use, the call returns a
  response with one choice whose message body is the concatenation, in order, of the
  texts of the text blocks; tool-use blocks at later positions raise nothing and
  contribute nothing.
\<close>

theorem tool_use_rejected_only_in_first_position:
  assumes "params \<in> set (snd (generateResponse a dec create model request))"
    and "create params = Inr reply"
  shows "(fst (generateResponse a dec create model request)
            = Inl (Error ''Unsupported content type: tool_use'')
          \<longleftrightarrow> (\<exists>b rest. am_content reply = b # rest \<and> is_tool_use b))
       \<and> (\<forall>b rest. am_content reply = b # rest \<and> \<not> is_tool_use b \<longrightarrow>
            (\<exists>res ch. fst (generateResponse a dec create model request) = Inr res \<and>
                      r_choices res = [ch] \<and>
                      msg_content (nc_message ch) = concat (map block_text (am_content reply))))"
proof -
  from assms have f: "fst (generateResponse a dec create model request) =
       (case parseNonStreamingResponse reply of Inl e \<Rightarrow> Inl (rethrow a e) | Inr res \<Rightarrow> Inr res)"
    unfolding generateResponse_def by (auto split: if_splits sum.splits)
  have t: "rethrow a e = Error ''Unsupported content type: tool_use'' \<longleftrightarrow>
           e = Error ''Unsupported content type: tool_use''" for e
    by (auto simp: rethrow_def split: error.splits vendor_error.splits)
  have 1: "fst (generateResponse a dec create model request)
            = Inl (Error ''Unsupported content type: tool_use'')
          \<longleftrightarrow> (\<exists>b rest. am_content reply = b # rest \<and> is_tool_use b)"
    unfolding f parse_reply_tool_use[symmetric]
    by (cases "parseNonStreamingResponse reply") (simp_all add: t)
  have 2: "\<exists>res ch. fst (generateResponse a dec create model request) = Inr res \<and>
                      r_choices res = [ch] \<and>
                      msg_content (nc_message ch) = concat (map block_text (am_content reply))"
    if "am_content reply = b # rest" "\<not> is_tool_use b" for b rest
    using parse_reply_text[OF that] unfolding f by auto
  from 1 2 show ?thesis by blast
qed

text \<open>
  The theorem on a reply with a text block, a tool-use block and a second text block: the
  call succeeds and the message body is the two texts joined.
\<close>

theorem tool_use_rejected_only_in_first_position_witness:
  "fst (generateResponse example_adapter example_decoder example_create_tool example_model
          example_request)
   \<noteq> Inl (Error ''Unsupported content type: tool_use'')
   \<and> map (\<lambda>ch. msg_content (nc_message ch))
       (case fst (generateResponse example_adapter example_decoder example_create_tool
                    example_model example_request) of
          Inr res \<Rightarrow> r_choices res | Inl e \<Rightarrow> [])
     = [''Let me check.'']"
proof -
  let ?p = "hd (snd (generateResponse example_adapter example_decoder example_create_tool
                       example_model example_request))"
  have h1: "?p \<in> set (snd (generateResponse example_adapter example_decoder example_create_tool
                             example_model example_request))"
    by (simp add: example_tool_calls)
  have h2: "example_create_tool ?p = Inr example_tool_reply"
    by (simp add: example_create_tool_def)
  have c: "am_content example_tool_reply =
             TextBlock ''Let me '' # [ToolUseBlock ''toolu_1'' ''get_weather'', TextBlock ''check.'']
           \<and> \<not> is_tool_use (TextBlock ''Let me '')"
    by (simp add: example_tool_reply_def)
  from tool_use_rejected_only_in_first_position[OF h1 h2] c
  show ?thesis by (auto simp: example_tool_reply_def)
qed

end
